theory Spec2Isabelle
  imports Complex_Main
begin

section \<open>JavaScript values used by the dev server and the client\<close>

text \<open>
  Strings are lists of code units; the character type covers the code units U+0000 to
  U+00FF, so every statement below is about strings over that range. A prefix test
  against an ASCII literal reads the same code units in every encoding.
\<close>

definition startsWith :: "string \<Rightarrow> string \<Rightarrow> bool" where
  "startsWith s p = (take (length p) s = p)"

text \<open>
  An exception is a value: the kind of the error object and its \<open>message\<close>. The
  wording of the message of a \<open>TypeError\<close> or \<open>SyntaxError\<close> raised by the engine is the
  engine's own; the texts written here stand for it.
\<close>

datatype js_error = Error string | TypeError string | SyntaxError string

fun error_message :: "js_error \<Rightarrow> string" where
  "error_message (Error m) = m"
| "error_message (TypeError m) = m"
| "error_message (SyntaxError m) = m"

text \<open>
  A value as \<open>JSON.parse\<close> returns it. A number is kept as the rational it denotes, an
  object as the list of its own properties, with distinct keys. A numeral too large for
  a double, which \<open>JSON.parse\<close> reads as \<open>Infinity\<close>, has no counterpart in this type.
  \<open>undefined\<close> is not a JSON value: a JavaScript value that may be \<open>undefined\<close> is a
  \<open>json option\<close>, with \<open>None\<close> for \<open>undefined\<close>.
\<close>

datatype json =
    JNull
  | JBool bool
  | JNumber rat
  | JString string
  | JArray "json list"
  | JObject "(string \<times> json) list"

text \<open>
  \<open>v.k\<close> for a property name \<open>k\<close> that strings, numbers, booleans and arrays neither
  own nor inherit (the code reads \<open>target\<close>, \<open>available_models\<close> and \<open>response\<close>):
  reading it from \<open>null\<close> throws, from an object it is the own property or
  \<open>undefined\<close>, from anything else it is \<open>undefined\<close>.
\<close>

fun get_property :: "string \<Rightarrow> json \<Rightarrow> js_error + json option" where
  "get_property k JNull =
     Inl (TypeError (''Cannot read properties of null (reading '' @ k @ '')''))"
| "get_property k (JObject kvs) = Inr (map_of kvs k)"
| "get_property k _ = Inr None"

text \<open>\<open>!v\<close>: the values that count as false in a condition.\<close>

fun falsy :: "json option \<Rightarrow> bool" where
  "falsy None = True"
| "falsy (Some JNull) = True"
| "falsy (Some (JBool b)) = (\<not> b)"
| "falsy (Some (JNumber n)) = (n = 0)"
| "falsy (Some (JString s)) = (s = [])"
| "falsy (Some (JArray _)) = False"
| "falsy (Some (JObject _)) = False"

fun isArray :: "json option \<Rightarrow> bool" where
  "isArray (Some (JArray _)) = True"
| "isArray _ = False"

text \<open>Sequencing of steps that may throw: the first exception ends the block.\<close>

fun and_then :: "'e + 'a \<Rightarrow> ('a \<Rightarrow> 'e + 'b) \<Rightarrow> 'e + 'b" where
  "and_then (Inl e) f = Inl e"
| "and_then (Inr x) f = f x"

section \<open>The dev server: target cell, control endpoint, forwarding proxy\<close>

text \<open>
  The module state of the dev-server configuration: the variable \<open>proxyTarget\<close>, and
  the field \<open>proxy.options.target\<close> of the proxy created for the \<open>/api\<close> prefix, which
  the configuration sets to \<open>defaultTarget\<close>.
\<close>

definition defaultTarget :: string where
  "defaultTarget = ''http://provider.gpufarm.xyz:31617''"

record server =
  proxyTarget :: string
  options_target :: string

definition initial_server :: server where
  "initial_server = \<lparr>proxyTarget = defaultTarget, options_target = defaultTarget\<rparr>"

text \<open>
  The scheme check written three times in the source (in \<open>updateProxyTarget\<close>, in the
  \<open>proxyReq\<close> handler and in \<open>handleApiSubmit\<close>) under the comment
  ``Ensure URL has protocol''.
\<close>

definition ensure_protocol :: "string \<Rightarrow> string" where
  "ensure_protocol t =
     (if \<not> startsWith t ''http://'' \<and> \<not> startsWith t ''https://''
      then ''http://'' @ t else t)"

text \<open>
  \<open>updateProxyTarget(newTarget)\<close>. The argument is whatever the destructuring of the
  parsed body produced. Calling \<open>startsWith\<close> on \<open>undefined\<close> or \<open>null\<close> throws, and so
  does calling it on a value that has no such method (numbers, booleans, arrays and
  parsed objects); the assignment is reached for strings only.
\<close>

fun updateProxyTarget :: "json option \<Rightarrow> server \<Rightarrow> js_error + server" where
  "updateProxyTarget (Some (JString newTarget)) st =
     Inr (st\<lparr>proxyTarget := ensure_protocol newTarget\<rparr>)"
| "updateProxyTarget None st =
     Inl (TypeError ''Cannot read properties of undefined (reading 'startsWith')'')"
| "updateProxyTarget (Some JNull) st =
     Inl (TypeError ''Cannot read properties of null (reading 'startsWith')'')"
| "updateProxyTarget (Some _) st =
     Inl (TypeError ''newTarget.startsWith is not a function'')"

text \<open>
  A request as the middleware sees it: the method, the URL and the chunks of the body
  in arrival order. A response: the status, the headers, and the value given to
  \<open>JSON.stringify\<close> for the body (\<open>None\<close> when \<open>res.end()\<close> is called with nothing).
\<close>

record request =
  req_method :: string
  req_url :: string
  req_chunks :: "string list"

record response =
  res_status :: nat
  res_headers :: "(string \<times> string) list"
  res_body :: "json option"

definition json_headers :: "(string \<times> string) list" where
  "json_headers = [(''Content-Type'', ''application/json'')]"

text \<open>
  The \<open>proxy-update\<close> middleware. \<open>JSON.parse\<close> is the language's own function, taken
  as the parameter \<open>JSON_parse\<close>: it throws or returns a value. The body is the
  concatenation of the chunks, parsed when the request ends.
\<close>

definition proxy_update ::
  "(string \<Rightarrow> js_error + json) \<Rightarrow> request \<Rightarrow> server \<Rightarrow> response \<times> server" where
  "proxy_update JSON_parse req st =
     (if req_method req = ''POST'' then
        (let body = foldl (@) [] (req_chunks req) in
         case and_then (and_then (JSON_parse body) (get_property ''target''))
                (\<lambda>target. updateProxyTarget target st) of
           Inr st' \<Rightarrow>
             (\<lparr>res_status = 200, res_headers = json_headers,
               res_body = Some (JObject [(''success'', JBool True)])\<rparr>, st')
         | Inl error \<Rightarrow>
             (\<lparr>res_status = 400, res_headers = json_headers,
               res_body = Some (JObject [(''error'', JString (error_message error))])\<rparr>, st))
      else (\<lparr>res_status = 405, res_headers = [], res_body = None\<rparr>, st))"

text \<open>
  The \<open>rewrite\<close> option: \<open>path.replace(/^\/api/, '')\<close> removes a leading \<open>/api\<close>.
\<close>

definition rewrite :: "string \<Rightarrow> string" where
  "rewrite path = (if startsWith path ''/api'' then drop 4 path else path)"

text \<open>
  The \<open>proxyReq\<close> handler registered in \<open>configure\<close>: when \<open>proxyTarget\<close> is a non-empty
  string it writes the target, with its scheme, into \<open>proxy.options.target\<close>.
\<close>

definition proxyReq_handler :: "server \<Rightarrow> server" where
  "proxyReq_handler st =
     (if proxyTarget st \<noteq> [] then st\<lparr>options_target := ensure_protocol (proxyTarget st)\<rparr>
      else st)"

text \<open>
  One request under the \<open>/api\<close> prefix. The dev server applies \<open>rewrite\<close> to the URL and
  hands the request to the proxy library (\<open>http-proxy\<close>), which creates the outgoing
  request from a copy of its options as they stand and only then emits \<open>proxyReq\<close>,
  with that outgoing request as the first argument of the handler (the handler reads
  its headers). The outgoing request is kept as the target it was created for and the
  URL after \<open>rewrite\<close>, as the library receives it in \<open>out_path\<close>; the library joins
  that to the path of the target before it sends the request, so that an empty
  rewritten URL asks for \<open>/\<close>.
\<close>

record outgoing =
  out_method :: string
  out_target :: string
  out_path :: string

definition proxy_web :: "request \<Rightarrow> server \<Rightarrow> outgoing \<times> server" where
  "proxy_web req st =
     (let proxyReq = \<lparr>out_method = req_method req, out_target = options_target st,
                      out_path = rewrite (req_url req)\<rparr>
      in (proxyReq, proxyReq_handler st))"

section \<open>The target cell module\<close>

text \<open>
  The module that holds \<open>currentTarget\<close> and exports \<open>updateTarget\<close> and \<open>getTarget\<close>.
  The variable starts as the environment's \<open>VITE_API_URL\<close> when that is set and not
  empty, and as the default otherwise. It can hold any value, so the type of the
  value is left open.
\<close>

definition initial_currentTarget :: "string option \<Rightarrow> string" where
  "initial_currentTarget VITE_API_URL =
     (case VITE_API_URL of
        Some u \<Rightarrow> if u \<noteq> [] then u else ''http://provider.gpufarm.xyz:31617''
      | None \<Rightarrow> ''http://provider.gpufarm.xyz:31617'')"

record 'v target_cell =
  currentTarget :: 'v

definition updateTarget :: "'v \<Rightarrow> 'v target_cell \<Rightarrow> 'v target_cell" where
  "updateTarget newTarget cell = cell\<lparr>currentTarget := newTarget\<rparr>"

definition getTarget :: "'v target_cell \<Rightarrow> 'v" where
  "getTarget cell = currentTarget cell"

text \<open>
  A caller of the module: a sequence of calls, run in order; the values that the
  \<open>getTarget\<close> calls returned are collected.
\<close>

datatype 'v cell_call = UpdateTarget 'v | GetTarget

fun run_calls :: "'v cell_call list \<Rightarrow> 'v target_cell \<Rightarrow> 'v list \<times> 'v target_cell" where
  "run_calls [] cell = ([], cell)"
| "run_calls (UpdateTarget v # calls) cell = run_calls calls (updateTarget v cell)"
| "run_calls (GetTarget # calls) cell =
     (let (returned, cell') = run_calls calls cell in (getTarget cell # returned, cell'))"

section \<open>The client\<close>

text \<open>
  \<open>fetch\<close> is the browser's: it takes a request and either rejects or resolves with a
  response, and whatever is outside the browser (of type \<open>'w\<close>) may change on the way.
  The body of a request is kept as the JSON value that \<open>JSON.stringify\<close> writes, in
  which a property whose value is \<open>undefined\<close> is left out. A response is its status
  and the outcome of reading its body as text; \<open>response.json()\<close> parses that text.
\<close>

record fetch_request =
  f_url :: string
  f_method :: string
  f_headers :: "(string \<times> string) list"
  f_body :: "json option"

record http_response =
  status :: nat
  text_result :: "js_error + string"

type_synonym 'w fetch = "fetch_request \<Rightarrow> 'w \<Rightarrow> (js_error + http_response) \<times> 'w"

definition ok :: "http_response \<Rightarrow> bool" where
  "ok r = (200 \<le> status r \<and> status r \<le> 299)"

definition response_json ::
  "(string \<Rightarrow> js_error + json) \<Rightarrow> http_response \<Rightarrow> js_error + json" where
  "response_json JSON_parse r = and_then (text_result r) JSON_parse"

text \<open>The decimal digits of a number, as a template literal prints a status.\<close>

fun string_of_nat :: "nat \<Rightarrow> string" where
  "string_of_nat n =
     (if n < 10 then [char_of (48 + n)]
      else string_of_nat (n div 10) @ [char_of (48 + n mod 10)])"

declare string_of_nat.simps [simp del]

definition models_request :: fetch_request where
  "models_request =
     \<lparr>f_url = ''/api/models'', f_method = ''GET'',
      f_headers = [(''Accept'', ''application/json''), (''Content-Type'', ''application/json'')],
      f_body = None\<rparr>"

subsection \<open>The configuration form\<close>

text \<open>
  The state of \<open>App\<close>, with the \<open>apiUrl\<close> key of \<open>localStorage\<close>. At start the form is
  shown when the key holds nothing.
\<close>

record app =
  apiUrl :: string
  isConfiguring :: bool
  app_error :: string
  localStorage_apiUrl :: "string option"

definition initial_app :: "string option \<Rightarrow> app" where
  "initial_app stored =
     \<lparr>apiUrl = (case stored of Some u \<Rightarrow> if u \<noteq> [] then u else [] | None \<Rightarrow> []),
      isConfiguring = (case stored of Some u \<Rightarrow> u = [] | None \<Rightarrow> True),
      app_error = [],
      localStorage_apiUrl = stored\<rparr>"

text \<open>\<open>apiUrl.replace(/\/$/, '')\<close>: one slash at the very end is removed.\<close>

definition strip_trailing_slash :: "string \<Rightarrow> string" where
  "strip_trailing_slash s = (if s \<noteq> [] \<and> last s = CHR ''/'' then butlast s else s)"

definition formattedUrl :: "string \<Rightarrow> string" where
  "formattedUrl url = ensure_protocol (strip_trailing_slash url)"

definition update_request :: "string \<Rightarrow> fetch_request" where
  "update_request target =
     \<lparr>f_url = ''/@vite/proxy-update'', f_method = ''POST'',
      f_headers = [(''Content-Type'', ''application/json'')],
      f_body = Some (JObject [(''target'', JString target)])\<rparr>"

text \<open>
  What \<open>handleApiSubmit\<close> does with the resolved probe response, up to the point where
  it would save the target: any exception thrown on the way is its result.
\<close>

definition check_probe ::
  "(string \<Rightarrow> js_error + json) \<Rightarrow> http_response \<Rightarrow> js_error + unit" where
  "check_probe JSON_parse r =
     (if \<not> ok r then
        and_then (text_result r) (\<lambda>errorText. Inl (Error ''Could not connect to API''))
      else
        and_then (and_then (response_json JSON_parse r) (get_property ''available_models''))
          (\<lambda>available_models.
             if falsy available_models \<or> \<not> isArray available_models
             then Inl (Error ''Invalid API response format'')
             else Inr ()))"

text \<open>
  \<open>handleApiSubmit\<close>. \<open>URL_valid\<close> says whether the browser's \<open>URL\<close> constructor
  accepts a string. The response to the update request is not looked at.
\<close>

definition handleApiSubmit ::
  "(string \<Rightarrow> bool) \<Rightarrow> (string \<Rightarrow> js_error + json) \<Rightarrow> 'w fetch \<Rightarrow> app \<times> 'w \<Rightarrow> app \<times> 'w" where
  "handleApiSubmit URL_valid JSON_parse fetch aw =
     (let (a, w) = aw;
          a0 = a\<lparr>app_error := []\<rparr>;
          failed = (\<lambda>error. a0\<lparr>app_error := ''Unable to connect to API: '' @ error_message error\<rparr>);
          url = formattedUrl (apiUrl a)
      in if \<not> URL_valid url then (failed (Error ''Please enter a valid URL''), w)
         else
           (let (updated, w1) = fetch (update_request url) w in
            case updated of
              Inl error \<Rightarrow> (failed error, w1)
            | Inr _ \<Rightarrow>
                (let (probe, w2) = fetch models_request w1 in
                 case and_then probe (check_probe JSON_parse) of
                   Inl error \<Rightarrow> (failed error, w2)
                 | Inr _ \<Rightarrow>
                     (a0\<lparr>localStorage_apiUrl := Some url, apiUrl := url,
                         isConfiguring := False\<rparr>, w2))))"

subsection \<open>The chat panel\<close>

record chat_message =
  role :: string
  content :: "json option"

record chat =
  messages :: "chat_message list"
  input :: string
  loading :: bool
  models :: "json list"
  selectedModel :: json
  chat_error :: "string option"

definition initial_chat :: chat where
  "initial_chat =
     \<lparr>messages = [], input = [], loading = False, models = [],
      selectedModel = JString [], chat_error = None\<rparr>"

fun array_items :: "json option \<Rightarrow> json list" where
  "array_items (Some (JArray items)) = items"
| "array_items _ = []"

text \<open>
  \<open>fetchModels\<close>, from the resolved response to the array it accepts. A body that
  cannot be read as text after a status that is not OK is replaced by a fixed text.
\<close>

definition available_models ::
  "(string \<Rightarrow> js_error + json) \<Rightarrow> http_response \<Rightarrow> js_error + json list" where
  "available_models JSON_parse r =
     (if \<not> ok r then
        (let errorText =
               (case text_result r of Inl e \<Rightarrow> ''Could not read error response'' | Inr t \<Rightarrow> t)
         in Inl (Error (''HTTP error! status: '' @ string_of_nat (status r) @ '' - '' @ errorText)))
      else
        (case response_json JSON_parse r of
           Inl error \<Rightarrow> Inl (Error ''Failed to parse response as JSON'')
         | Inr data \<Rightarrow>
             if falsy (Some data) then Inl (Error ''Invalid response format from server'')
             else
               and_then (get_property ''available_models'' data)
                 (\<lambda>listed.
                    if falsy listed \<or> \<not> isArray listed
                    then Inl (Error ''Invalid response format from server'')
                    else Inr (array_items listed))))"

definition fetchModels ::
  "(string \<Rightarrow> js_error + json) \<Rightarrow> 'w fetch \<Rightarrow> chat \<times> 'w \<Rightarrow> chat \<times> 'w" where
  "fetchModels JSON_parse fetch cw =
     (let (c, w) = cw;
          c0 = c\<lparr>chat_error := None\<rparr>;
          (response, w') = fetch models_request w
      in case and_then response (available_models JSON_parse) of
           Inr listed \<Rightarrow>
             (let c1 = c0\<lparr>models := listed\<rparr>
              in (if length listed > 0 then c1\<lparr>selectedModel := hd listed\<rparr> else c1, w'))
         | Inl error \<Rightarrow>
             (c0\<lparr>chat_error := Some (''Failed to load models: '' @ error_message error)\<rparr>, w'))"

text \<open>
  \<open>input.trim()\<close> removes white space and line terminators at both ends; among the
  code units of the character type these are tab, line feed, vertical tab, form feed,
  carriage return, space and the no-break space.
\<close>

definition isWhiteSpace :: "char \<Rightarrow> bool" where
  "isWhiteSpace c =
     (let u = (of_char c :: nat)
      in u = 9 \<or> u = 10 \<or> u = 11 \<or> u = 12 \<or> u = 13 \<or> u = 32 \<or> u = 160)"

definition trim :: "string \<Rightarrow> string" where
  "trim s = rev (dropWhile isWhiteSpace (rev (dropWhile isWhiteSpace s)))"

definition json_of_message :: "chat_message \<Rightarrow> json" where
  "json_of_message m =
     JObject ((''role'', JString (role m)) #
              (case content m of None \<Rightarrow> [] | Some c \<Rightarrow> [(''content'', c)]))"

definition chat_request :: "chat_message list \<Rightarrow> json \<Rightarrow> fetch_request" where
  "chat_request transcript model =
     \<lparr>f_url = ''/api/chat'', f_method = ''POST'',
      f_headers = [(''Content-Type'', ''application/json'')],
      f_body = Some (JObject
        [(''messages'', JArray (map json_of_message transcript)),
         (''model'', model),
         (''temperature'', JNumber (7 / 10)),
         (''max_tokens'', JNumber 1000)])\<rparr>"

definition fallback_text :: string where
  "fallback_text = ''Sorry, there was an error processing your request.''"

text \<open>
  \<open>handleSubmit\<close>, from the resolved response to the parsed \<open>data\<close>: the part of the
  \<open>try\<close> block that can throw.
\<close>

definition chat_data ::
  "(string \<Rightarrow> js_error + json) \<Rightarrow> http_response \<Rightarrow> js_error + json" where
  "chat_data JSON_parse r =
     (if \<not> ok r then Inl (Error (''HTTP error! status: '' @ string_of_nat (status r)))
      else response_json JSON_parse r)"

text \<open>
  \<open>handleSubmit\<close>. \<open>data.response\<close> is read inside the function given to \<open>setMessages\<close>,
  which runs when the panel renders, after the \<open>try\<close> block has been left. When \<open>data\<close> is
  \<open>null\<close> that read throws there: no assistant entry is appended and the \<open>catch\<close> of
  \<open>handleSubmit\<close> never sees the exception, so no fallback entry is appended either.
\<close>

definition handleSubmit ::
  "(string \<Rightarrow> js_error + json) \<Rightarrow> 'w fetch \<Rightarrow> chat \<times> 'w \<Rightarrow> chat \<times> 'w" where
  "handleSubmit JSON_parse fetch cw =
     (let (c, w) = cw in
      if trim (input c) = [] \<or> falsy (Some (selectedModel c)) then (c, w)
      else
        (let userMessage = \<lparr>role = ''user'', content = Some (JString (input c))\<rparr>;
             c1 = c\<lparr>messages := messages c @ [userMessage], input := [], loading := True\<rparr>;
             (response, w') = fetch (chat_request (messages c @ [userMessage]) (selectedModel c)) w
         in case and_then response (chat_data JSON_parse) of
              Inr data \<Rightarrow>
                (case get_property ''response'' data of
                   Inr reply \<Rightarrow>
                     (c1\<lparr>messages := messages c1 @ [\<lparr>role = ''assistant'', content = reply\<rparr>],
                         loading := False\<rparr>, w')
                 | Inl thrown \<Rightarrow> (c1\<lparr>loading := False\<rparr>, w'))
            | Inl error \<Rightarrow>
                (c1\<lparr>messages := messages c1 @
                      [\<lparr>role = ''assistant'', content = Some (JString fallback_text)\<rparr>],
                    loading := False\<rparr>, w')))"

section \<open>The client in front of the dev server\<close>

text \<open>
  The dev server as the browser's \<open>fetch\<close> reaches it. A request for the control path
  goes to the \<open>proxy-update\<close> middleware, with the serialised body as its only chunk; a
  request under \<open>/api\<close> goes through the proxy, and \<open>upstream\<close> is what comes back for
  the outgoing request; \<open>other\<close> stands for everything else the server answers. The
  control path is matched as the client sends it, letter for letter; the server would
  hand the middleware the paths below it as well, which the client never asks for.
\<close>

definition dev_server ::
  "(string \<Rightarrow> js_error + json) \<Rightarrow> (json \<Rightarrow> string) \<Rightarrow>
   (outgoing \<Rightarrow> js_error + http_response) \<Rightarrow>
   (fetch_request \<Rightarrow> js_error + http_response) \<Rightarrow> server fetch" where
  "dev_server JSON_parse JSON_stringify upstream other r st =
     (let req = \<lparr>req_method = f_method r, req_url = f_url r,
                 req_chunks = (case f_body r of None \<Rightarrow> [] | Some v \<Rightarrow> [JSON_stringify v])\<rparr>
      in if f_url r = ''/@vite/proxy-update'' then
           (let (res, st') = proxy_update JSON_parse req st
            in (Inr \<lparr>status = res_status res,
                     text_result =
                       Inr (case res_body res of None \<Rightarrow> [] | Some v \<Rightarrow> JSON_stringify v)\<rparr>,
                st'))
         else if startsWith (f_url r) ''/api'' then
           (let (proxyReq, st') = proxy_web req st in (upstream proxyReq, st'))
         else (other r, st))"

text \<open>
  A network that answers each request by \<open>answer\<close> and keeps the list of the requests
  it was sent, in order.
\<close>

definition recorded ::
  "(fetch_request \<Rightarrow> js_error + http_response) \<Rightarrow> (fetch_request list) fetch" where
  "recorded answer r sent = (answer r, sent @ [r])"

section \<open>What the specification asks of a listing response\<close>

text \<open>
  From the words of the specification, not from the code: a probe or listing response
  carries ``a parseable array of model identifiers'' when it arrived, its status is OK
  and its body parses to an object whose \<open>available_models\<close> is an array.
\<close>

definition has_model_array ::
  "(string \<Rightarrow> js_error + json) \<Rightarrow> js_error + http_response \<Rightarrow> bool" where
  "has_model_array JSON_parse result =
     (case result of
        Inl _ \<Rightarrow> False
      | Inr r \<Rightarrow>
          ok r \<and>
          (case response_json JSON_parse r of
             Inr (JObject kvs) \<Rightarrow> isArray (map_of kvs ''available_models'')
           | _ \<Rightarrow> False))"

section \<open>Sample parameters\<close>

text \<open>
  \<open>JSON.parse\<close> and \<open>JSON.stringify\<close> are parameters of the model. Where a statement is
  instantiated at concrete inputs, they are replaced by these two functions, which
  agree with the real ones on the few texts and values the instances use; on every
  other text \<open>sample_JSON_parse\<close> throws.
\<close>

definition sample_JSON_parse :: "string \<Rightarrow> js_error + json" where
  "sample_JSON_parse text =
     (if text = ''{\"target\":\"provider.example:9000\"}''
      then Inr (JObject [(''target'', JString ''provider.example:9000'')])
      else if text = ''{\"target\":\"http://provider.example:9000\"}''
      then Inr (JObject [(''target'', JString ''http://provider.example:9000'')])
      else if text = ''{\"available_models\":[\"a\",\"b\"]}''
      then Inr (JObject [(''available_models'', JArray [JString ''a'', JString ''b''])])
      else if text = ''{\"available_models\":[]}''
      then Inr (JObject [(''available_models'', JArray [])])
      else if text = ''{}'' then Inr (JObject [])
      else if text = ''null'' then Inr JNull
      else if text = ''{\"target\":5}'' then Inr (JObject [(''target'', JNumber 5)])
      else Inl (SyntaxError ''Unexpected token in JSON''))"

fun sample_JSON_stringify :: "json \<Rightarrow> string" where
  "sample_JSON_stringify (JObject [(k, JString s)]) = ''{\"'' @ k @ ''\":\"'' @ s @ ''\"}''"
| "sample_JSON_stringify _ = ''null''"

section \<open>Scheme normalisation\<close>

lemma ensure_protocol_idem: "ensure_protocol (ensure_protocol t) = ensure_protocol t"
  by (simp add: ensure_protocol_def startsWith_def)

text \<open>
  C4. A string that starts with neither \<open>http://\<close> nor \<open>https://\<close> gets \<open>http://\<close> put in
  front of it, and a string that starts with one of them is returned as it is. This is
  what \<open>updateProxyTarget\<close> stores, and what \<open>handleApiSubmit\<close> computes from the
  address typed in, once its one trailing slash is removed.
\<close>

theorem normalization_prepends_or_keeps:
  "(\<not> startsWith s ''http://'' \<and> \<not> startsWith s ''https://'' \<longrightarrow>
      ensure_protocol s = ''http://'' @ s \<and>
      updateProxyTarget (Some (JString s)) st = Inr (st\<lparr>proxyTarget := ''http://'' @ s\<rparr>))
   \<and> (startsWith s ''http://'' \<or> startsWith s ''https://'' \<longrightarrow>
      ensure_protocol s = s \<and>
      updateProxyTarget (Some (JString s)) st = Inr (st\<lparr>proxyTarget := s\<rparr>))
   \<and> formattedUrl typed = ensure_protocol (strip_trailing_slash typed)"
  by (auto simp: ensure_protocol_def formattedUrl_def)

theorem normalization_prepends_or_keeps_witness:
  "ensure_protocol ''provider.example:9000'' = ''http://provider.example:9000''
   \<and> updateProxyTarget (Some (JString ''provider.example:9000'')) initial_server
       = Inr (initial_server\<lparr>proxyTarget := ''http://provider.example:9000''\<rparr>)
   \<and> ensure_protocol ''https://provider.example'' = ''https://provider.example''
   \<and> updateProxyTarget (Some (JString ''https://provider.example'')) initial_server
       = Inr (initial_server\<lparr>proxyTarget := ''https://provider.example''\<rparr>)
   \<and> formattedUrl ''provider.example:9000/'' = ''http://provider.example:9000''"
  using normalization_prepends_or_keeps
      [of "''provider.example:9000''" initial_server "''provider.example:9000/''"]
    normalization_prepends_or_keeps
      [of "''https://provider.example''" initial_server "''provider.example:9000/''"]
  by (simp add: startsWith_def strip_trailing_slash_def ensure_protocol_def)

section \<open>Answers of the control endpoint\<close>

lemma updateProxyTarget_rejects:
  assumes "\<forall>t. target \<noteq> Some (JString t)"
  shows "\<exists>e. updateProxyTarget target st = Inl e"
proof (cases target)
  case None
  then show ?thesis by simp
next
  case (Some x)
  with assms show ?thesis by (cases x) simp_all
qed

text \<open>
  C2. For a POST to the control path: when the body parses and its \<open>target\<close> is a string,
  the answer is 200 with \<open>{success: true}\<close> and the stored target becomes that string
  with its scheme. In every other case the answer is 400 with \<open>{error: message}\<close> and the
  stored target is as before: when the body does not parse, when it parses to a value with
  no \<open>target\<close>, when it parses to \<open>null\<close> (reading \<open>target\<close> throws), and when its \<open>target\<close>
  is not a string.
\<close>

theorem control_endpoint_post:
  assumes "req_method req = ''POST''"
  shows "(JSON_parse (foldl (@) [] (req_chunks req)) = Inr v \<and>
          get_property ''target'' v = Inr (Some (JString t)) \<longrightarrow>
            proxy_update JSON_parse req st =
              (\<lparr>res_status = 200, res_headers = json_headers,
                res_body = Some (JObject [(''success'', JBool True)])\<rparr>,
               st\<lparr>proxyTarget := ensure_protocol t\<rparr>))
       \<and> (JSON_parse (foldl (@) [] (req_chunks req)) = Inl e \<longrightarrow>
            proxy_update JSON_parse req st =
              (\<lparr>res_status = 400, res_headers = json_headers,
                res_body = Some (JObject [(''error'', JString (error_message e))])\<rparr>, st))
       \<and> (JSON_parse (foldl (@) [] (req_chunks req)) = Inr v \<and>
          get_property ''target'' v = Inr None \<longrightarrow>
            proxy_update JSON_parse req st =
              (\<lparr>res_status = 400, res_headers = json_headers,
                res_body = Some (JObject [(''error'',
                  JString ''Cannot read properties of undefined (reading 'startsWith')'')])\<rparr>,
               st))
       \<and> (JSON_parse (foldl (@) [] (req_chunks req)) = Inr v \<and>
          get_property ''target'' v = Inl e \<longrightarrow>
            proxy_update JSON_parse req st =
              (\<lparr>res_status = 400, res_headers = json_headers,
                res_body = Some (JObject [(''error'', JString (error_message e))])\<rparr>, st))
       \<and> (JSON_parse (foldl (@) [] (req_chunks req)) = Inr v \<and>
          get_property ''target'' v = Inr (Some x) \<and> (\<forall>s. x \<noteq> JString s) \<longrightarrow>
            (\<exists>m. proxy_update JSON_parse req st =
              (\<lparr>res_status = 400, res_headers = json_headers,
                res_body = Some (JObject [(''error'', JString m)])\<rparr>, st)))
       \<and> ((\<forall>parsed s. JSON_parse (foldl (@) [] (req_chunks req)) = Inr parsed \<longrightarrow>
                get_property ''target'' parsed \<noteq> Inr (Some (JString s))) \<longrightarrow>
            (\<exists>m. proxy_update JSON_parse req st =
              (\<lparr>res_status = 400, res_headers = json_headers,
                res_body = Some (JObject [(''error'', JString m)])\<rparr>, st)))"
proof -
  let ?body = "foldl (@) [] (req_chunks req)"
  let ?bad = "\<lambda>m. (\<lparr>res_status = 400, res_headers = json_headers,
                res_body = Some (JObject [(''error'', JString m)])\<rparr>, st)"
  have rejected: "\<exists>m. proxy_update JSON_parse req st = ?bad m"
    if "JSON_parse ?body = Inr parsed" and "get_property ''target'' parsed = Inr target"
      and "\<forall>s. target \<noteq> Some (JString s)" for parsed target
  proof -
    from that(3) obtain err where "updateProxyTarget target st = Inl err"
      using updateProxyTarget_rejects by blast
    with that(1,2) assms show ?thesis by (simp add: proxy_update_def)
  qed
  have not_string: "\<exists>m. proxy_update JSON_parse req st = ?bad m"
    if "JSON_parse ?body = Inr v" and "get_property ''target'' v = Inr (Some x)"
      and "\<forall>s. x \<noteq> JString s"
    using rejected [OF that(1,2)] that(3) by simp
  have every: "\<exists>m. proxy_update JSON_parse req st = ?bad m"
    if h: "\<forall>parsed s. JSON_parse ?body = Inr parsed \<longrightarrow>
             get_property ''target'' parsed \<noteq> Inr (Some (JString s))"
  proof (cases "JSON_parse ?body")
    case (Inl err)
    with assms show ?thesis by (simp add: proxy_update_def)
  next
    case (Inr parsed)
    show ?thesis
    proof (cases "get_property ''target'' parsed")
      case (Inl err)
      with Inr assms show ?thesis by (simp add: proxy_update_def)
    next
      case inner: (Inr target)
      from h Inr inner have "\<forall>s. target \<noteq> Some (JString s)" by auto
      with Inr inner show ?thesis by (rule rejected)
    qed
  qed
  from assms not_string every show ?thesis
    by (simp add: proxy_update_def)
qed

theorem control_endpoint_post_witness:
  "proxy_update sample_JSON_parse
      \<lparr>req_method = ''POST'', req_url = ''/@vite/proxy-update'',
       req_chunks = [''{\"target\":'', ''\"provider.example:9000\"}'']\<rparr> initial_server
     = (\<lparr>res_status = 200, res_headers = json_headers,
         res_body = Some (JObject [(''success'', JBool True)])\<rparr>,
        initial_server\<lparr>proxyTarget := ''http://provider.example:9000''\<rparr>)
   \<and> proxy_update sample_JSON_parse
      \<lparr>req_method = ''POST'', req_url = ''/@vite/proxy-update'',
       req_chunks = [''hello'']\<rparr> initial_server
     = (\<lparr>res_status = 400, res_headers = json_headers,
         res_body = Some (JObject [(''error'', JString ''Unexpected token in JSON'')])\<rparr>,
        initial_server)
   \<and> proxy_update sample_JSON_parse
      \<lparr>req_method = ''POST'', req_url = ''/@vite/proxy-update'',
       req_chunks = [''{}'']\<rparr> initial_server
     = (\<lparr>res_status = 400, res_headers = json_headers,
         res_body = Some (JObject [(''error'',
           JString ''Cannot read properties of undefined (reading 'startsWith')'')])\<rparr>,
        initial_server)
   \<and> proxy_update sample_JSON_parse
      \<lparr>req_method = ''POST'', req_url = ''/@vite/proxy-update'',
       req_chunks = [''null'']\<rparr> initial_server
     = (\<lparr>res_status = 400, res_headers = json_headers,
         res_body = Some (JObject [(''error'',
           JString ''Cannot read properties of null (reading target)'')])\<rparr>,
        initial_server)
   \<and> (\<exists>m. proxy_update sample_JSON_parse
      \<lparr>req_method = ''POST'', req_url = ''/@vite/proxy-update'',
       req_chunks = [''{\"target\":5}'']\<rparr> initial_server
     = (\<lparr>res_status = 400, res_headers = json_headers,
         res_body = Some (JObject [(''error'', JString m)])\<rparr>,
        initial_server))"
  using
    control_endpoint_post [of "\<lparr>req_method = ''POST'', req_url = ''/@vite/proxy-update'',
       req_chunks = [''{\"target\":'', ''\"provider.example:9000\"}'']\<rparr>" sample_JSON_parse
       "JObject [(''target'', JString ''provider.example:9000'')]" "''provider.example:9000''"
       initial_server]
    control_endpoint_post [of "\<lparr>req_method = ''POST'', req_url = ''/@vite/proxy-update'',
       req_chunks = [''hello'']\<rparr>" sample_JSON_parse _ _ initial_server
       "SyntaxError ''Unexpected token in JSON''"]
    control_endpoint_post [of "\<lparr>req_method = ''POST'', req_url = ''/@vite/proxy-update'',
       req_chunks = [''{}'']\<rparr>" sample_JSON_parse "JObject []" _ initial_server]
    control_endpoint_post [of "\<lparr>req_method = ''POST'', req_url = ''/@vite/proxy-update'',
       req_chunks = [''null'']\<rparr>" sample_JSON_parse JNull _ initial_server
       "TypeError ''Cannot read properties of null (reading target)''"]
    control_endpoint_post [of "\<lparr>req_method = ''POST'', req_url = ''/@vite/proxy-update'',
       req_chunks = [''{\"target\":5}'']\<rparr>" sample_JSON_parse
       "JObject [(''target'', JNumber 5)]" _ initial_server _ "JNumber 5"]
  by (simp add: sample_JSON_parse_def ensure_protocol_def startsWith_def)

text \<open>
  C10. A request to the control path whose method is not POST is answered with 405, no
  headers and no body, and the stored target is as before, whatever the body holds and
  whatever parsing it would give.
\<close>

theorem control_endpoint_other_methods:
  "req_method req \<noteq> ''POST'' \<Longrightarrow>
     proxy_update JSON_parse req st =
       (\<lparr>res_status = 405, res_headers = [], res_body = None\<rparr>, st)"
  by (simp add: proxy_update_def)

theorem control_endpoint_other_methods_witness:
  "proxy_update sample_JSON_parse
     \<lparr>req_method = ''GET'', req_url = ''/@vite/proxy-update'',
      req_chunks = [''{\"target\":\"provider.example:9000\"}'']\<rparr> initial_server
   = (\<lparr>res_status = 405, res_headers = [], res_body = None\<rparr>, initial_server)"
  using control_endpoint_other_methods
    [of "\<lparr>req_method = ''GET'', req_url = ''/@vite/proxy-update'',
          req_chunks = [''{\"target\":\"provider.example:9000\"}'']\<rparr>"
        sample_JSON_parse initial_server]
  by simp

section \<open>Forwarding after an update\<close>

text \<open>
  C1 does not hold of the code. After an accepted update the variable \<open>proxyTarget\<close>
  holds the new target, but the first request forwarded under \<open>/api\<close> is created for
  the target that \<open>proxy.options\<close> held before: the handler copies \<open>proxyTarget\<close> into
  \<open>proxy.options.target\<close> when \<open>proxyReq\<close> is emitted, after the outgoing request
  exists. The second forwarded request is the first to go to the new target.
\<close>

theorem first_forward_after_update_goes_to_previous_target:
  assumes "JSON_parse (foldl (@) [] chunks) = Inr (JObject [(''target'', JString t)])"
      and "proxy_update JSON_parse
             \<lparr>req_method = ''POST'', req_url = ''/@vite/proxy-update'', req_chunks = chunks\<rparr> st
           = (res, st1)"
      and "proxy_web \<lparr>req_method = m, req_url = ''/api'' @ path, req_chunks = cs\<rparr> st1
           = (first, st2)"
      and "proxy_web \<lparr>req_method = m', req_url = ''/api'' @ path', req_chunks = cs'\<rparr> st2
           = (second, st3)"
  shows "res_status res = 200
       \<and> proxyTarget st1 = ensure_protocol t
       \<and> first = \<lparr>out_method = m, out_target = options_target st, out_path = path\<rparr>
       \<and> second = \<lparr>out_method = m', out_target = ensure_protocol t, out_path = path'\<rparr>"
  using assms
  by (auto simp: proxy_update_def proxy_web_def proxyReq_handler_def rewrite_def startsWith_def
      ensure_protocol_def Let_def)

theorem first_forward_after_update_goes_to_previous_target_witness:
  "proxy_update sample_JSON_parse
     \<lparr>req_method = ''POST'', req_url = ''/@vite/proxy-update'',
      req_chunks = [''{\"target\":\"provider.example:9000\"}'']\<rparr> initial_server
   = (\<lparr>res_status = 200, res_headers = json_headers,
       res_body = Some (JObject [(''success'', JBool True)])\<rparr>,
      \<lparr>proxyTarget = ''http://provider.example:9000'',
       options_target = ''http://provider.gpufarm.xyz:31617''\<rparr>)
   \<and> proxy_web \<lparr>req_method = ''GET'', req_url = ''/api/models'', req_chunks = []\<rparr>
       \<lparr>proxyTarget = ''http://provider.example:9000'',
        options_target = ''http://provider.gpufarm.xyz:31617''\<rparr>
     = (\<lparr>out_method = ''GET'', out_target = ''http://provider.gpufarm.xyz:31617'',
         out_path = ''/models''\<rparr>,
        \<lparr>proxyTarget = ''http://provider.example:9000'',
         options_target = ''http://provider.example:9000''\<rparr>)
   \<and> proxy_web \<lparr>req_method = ''GET'', req_url = ''/api/models'', req_chunks = []\<rparr>
       \<lparr>proxyTarget = ''http://provider.example:9000'',
        options_target = ''http://provider.example:9000''\<rparr>
     = (\<lparr>out_method = ''GET'', out_target = ''http://provider.example:9000'',
         out_path = ''/models''\<rparr>,
        \<lparr>proxyTarget = ''http://provider.example:9000'',
         options_target = ''http://provider.example:9000''\<rparr>)"
proof -
  have parsed: "sample_JSON_parse (foldl (@) [] [''{\"target\":\"provider.example:9000\"}''])
      = Inr (JObject [(''target'', JString ''provider.example:9000'')])"
    by (simp add: sample_JSON_parse_def)
  have update: "proxy_update sample_JSON_parse
     \<lparr>req_method = ''POST'', req_url = ''/@vite/proxy-update'',
      req_chunks = [''{\"target\":\"provider.example:9000\"}'']\<rparr> initial_server
   = (\<lparr>res_status = 200, res_headers = json_headers,
       res_body = Some (JObject [(''success'', JBool True)])\<rparr>,
      \<lparr>proxyTarget = ''http://provider.example:9000'',
       options_target = ''http://provider.gpufarm.xyz:31617''\<rparr>)"
    by (simp add: proxy_update_def sample_JSON_parse_def initial_server_def defaultTarget_def
        ensure_protocol_def startsWith_def)
  have first: "proxy_web \<lparr>req_method = ''GET'', req_url = ''/api'' @ ''/models'', req_chunks = []\<rparr>
       \<lparr>proxyTarget = ''http://provider.example:9000'',
        options_target = ''http://provider.gpufarm.xyz:31617''\<rparr>
     = (\<lparr>out_method = ''GET'', out_target = ''http://provider.gpufarm.xyz:31617'',
         out_path = ''/models''\<rparr>,
        \<lparr>proxyTarget = ''http://provider.example:9000'',
         options_target = ''http://provider.example:9000''\<rparr>)"
    by (simp add: proxy_web_def proxyReq_handler_def rewrite_def ensure_protocol_def
        startsWith_def)
  have second: "proxy_web \<lparr>req_method = ''GET'', req_url = ''/api'' @ ''/models'', req_chunks = []\<rparr>
       \<lparr>proxyTarget = ''http://provider.example:9000'',
        options_target = ''http://provider.example:9000''\<rparr>
     = (\<lparr>out_method = ''GET'', out_target = ''http://provider.example:9000'',
         out_path = ''/models''\<rparr>,
        \<lparr>proxyTarget = ''http://provider.example:9000'',
         options_target = ''http://provider.example:9000''\<rparr>)"
    by (simp add: proxy_web_def proxyReq_handler_def rewrite_def ensure_protocol_def
        startsWith_def)
  from first_forward_after_update_goes_to_previous_target [OF parsed update first second]
    update first second
  show ?thesis by simp
qed

section \<open>Last write wins in the target cell\<close>

lemma run_calls_append:
  "run_calls (xs @ ys) cell =
     (fst (run_calls xs cell) @ fst (run_calls ys (snd (run_calls xs cell))),
      snd (run_calls ys (snd (run_calls xs cell))))"
  by (induction xs cell rule: run_calls.induct) (auto simp: case_prod_beta)

lemma run_calls_gets:
  "\<forall>c \<in> set calls. c = GetTarget \<Longrightarrow>
     run_calls calls cell = (replicate (length calls) (getTarget cell), cell)"
  by (induction calls) auto

text \<open>
  C3. \<open>updateTarget\<close> replaces the cell's value by the value it is given, whatever the two
  are, and \<open>getTarget\<close> returns the value of the most recent \<open>updateTarget\<close>: in any
  sequence of calls, every \<open>getTarget\<close> that follows \<open>updateTarget u\<close> with no other
  update in between returns exactly \<open>u\<close>.
\<close>

theorem target_cell_last_write_wins:
  "updateTarget u cell = \<lparr>currentTarget = u\<rparr>
   \<and> getTarget (updateTarget u cell) = u
   \<and> ((\<forall>c \<in> set later. c = GetTarget) \<longrightarrow>
        run_calls (earlier @ UpdateTarget u # later) cell =
          (fst (run_calls earlier cell) @ replicate (length later) u, \<lparr>currentTarget = u\<rparr>))"
  by (simp add: run_calls_append run_calls_gets) (simp add: updateTarget_def getTarget_def)

theorem target_cell_last_write_wins_witness:
  "updateTarget ''provider.example:9000'' \<lparr>currentTarget = initial_currentTarget None\<rparr>
     = \<lparr>currentTarget = ''provider.example:9000''\<rparr>
   \<and> getTarget (updateTarget ''provider.example:9000''
        \<lparr>currentTarget = initial_currentTarget None\<rparr>) = ''provider.example:9000''
   \<and> run_calls ([GetTarget, UpdateTarget ''a'', GetTarget] @
         UpdateTarget ''provider.example:9000'' # [GetTarget, GetTarget])
        \<lparr>currentTarget = initial_currentTarget None\<rparr>
      = ([''http://provider.gpufarm.xyz:31617'', ''a'',
          ''provider.example:9000'', ''provider.example:9000''],
         \<lparr>currentTarget = ''provider.example:9000''\<rparr>)"
  using target_cell_last_write_wins [of "''provider.example:9000''"
      "\<lparr>currentTarget = initial_currentTarget None\<rparr>" "[GetTarget, GetTarget]"
      "[GetTarget, UpdateTarget ''a'', GetTarget]"]
  by (simp add: initial_currentTarget_def updateTarget_def getTarget_def)

section \<open>A failed probe in the configuration form\<close>

lemma check_probe_fails:
  assumes "\<not> has_model_array JSON_parse (Inr r)"
  shows "\<exists>e. check_probe JSON_parse r = Inl e"
proof (cases "ok r")
  case False
  then show ?thesis
    by (cases "text_result r") (simp_all add: check_probe_def)
next
  case True
  show ?thesis
  proof (cases "response_json JSON_parse r")
    case (Inl e)
    with True show ?thesis by (simp add: check_probe_def)
  next
    case (Inr data)
    with True assms show ?thesis
      by (cases data) (auto simp: check_probe_def has_model_array_def)
  qed
qed

lemma failed_probe_submit:
  assumes "URL_valid (formattedUrl (apiUrl a))"
      and "fetch (update_request (formattedUrl (apiUrl a))) w = (Inr updated, w1)"
      and "fetch models_request w1 = (probe, w2)"
      and "\<not> has_model_array JSON_parse probe"
  shows "\<exists>e. handleApiSubmit URL_valid JSON_parse fetch (a, w) =
           (a\<lparr>app_error := ''Unable to connect to API: '' @ error_message e\<rparr>, w2)"
proof -
  have "\<exists>e. and_then probe (check_probe JSON_parse) = Inl e"
    using assms(4) check_probe_fails [of JSON_parse] by (cases probe) auto
  then obtain e where "and_then probe (check_probe JSON_parse) = Inl e" ..
  with assms(1-3) show ?thesis
    by (auto simp: handleApiSubmit_def)
qed

lemma dev_server_update:
  assumes "JSON_parse (JSON_stringify (JObject [(''target'', JString url)]))
             = Inr (JObject [(''target'', JString url)])"
  shows "dev_server JSON_parse JSON_stringify upstream other (update_request url) st =
      (Inr \<lparr>status = 200,
            text_result = Inr (JSON_stringify (JObject [(''success'', JBool True)]))\<rparr>,
       st\<lparr>proxyTarget := ensure_protocol url\<rparr>)"
  using assms by (simp add: dev_server_def update_request_def proxy_update_def)

lemma dev_server_models:
  "dev_server JSON_parse JSON_stringify upstream other models_request st =
     (upstream \<lparr>out_method = ''GET'', out_target = options_target st, out_path = ''/models''\<rparr>,
      proxyReq_handler st)"
  by (simp add: dev_server_def models_request_def startsWith_def proxy_web_def rewrite_def)

text \<open>
  C5. When the address typed in is accepted as a URL, the update request resolves, and
  the probe then fails (it rejects, its status is not OK, or its body has no parseable
  array \<open>available_models\<close>), \<open>handleApiSubmit\<close> changes nothing but the error text: the
  form stays as it was and the \<open>apiUrl\<close> key of \<open>localStorage\<close> keeps its value. In front
  of the dev server the stored target is then the newly submitted one, not the one
  stored before.
\<close>

theorem failed_probe_keeps_form_and_saved_key:
  assumes "url = formattedUrl (apiUrl a)" and "URL_valid url"
  shows "(fetch (update_request url) w = (Inr updated, w1) \<and>
          fetch models_request w1 = (probe, w2) \<and>
          \<not> has_model_array JSON_parse probe \<longrightarrow>
            (\<exists>e. handleApiSubmit URL_valid JSON_parse fetch (a, w) =
                   (a\<lparr>app_error := ''Unable to connect to API: '' @ error_message e\<rparr>, w2)))
       \<and> (JSON_parse (JSON_stringify (JObject [(''target'', JString url)]))
            = Inr (JObject [(''target'', JString url)]) \<and>
          \<not> has_model_array JSON_parse
              (fst (dev_server JSON_parse JSON_stringify upstream other models_request
                      (st\<lparr>proxyTarget := url\<rparr>))) \<longrightarrow>
            (\<exists>e st'. handleApiSubmit URL_valid JSON_parse
                        (dev_server JSON_parse JSON_stringify upstream other) (a, st) =
                   (a\<lparr>app_error := ''Unable to connect to API: '' @ error_message e\<rparr>, st')
                 \<and> proxyTarget st' = url))"
proof (intro conjI impI)
  assume "fetch (update_request url) w = (Inr updated, w1) \<and>
          fetch models_request w1 = (probe, w2) \<and> \<not> has_model_array JSON_parse probe"
  with assms show "\<exists>e. handleApiSubmit URL_valid JSON_parse fetch (a, w) =
                   (a\<lparr>app_error := ''Unable to connect to API: '' @ error_message e\<rparr>, w2)"
    using failed_probe_submit [of URL_valid a fetch w updated w1 probe w2 JSON_parse] by simp
next
  let ?fetch = "dev_server JSON_parse JSON_stringify upstream other"
  assume h: "JSON_parse (JSON_stringify (JObject [(''target'', JString url)]))
            = Inr (JObject [(''target'', JString url)]) \<and>
          \<not> has_model_array JSON_parse (fst (?fetch models_request (st\<lparr>proxyTarget := url\<rparr>)))"
  have u: "ensure_protocol url = url"
    using assms(1) by (simp add: formattedUrl_def ensure_protocol_idem)
  have upd: "?fetch (update_request (formattedUrl (apiUrl a))) st =
      (Inr \<lparr>status = 200,
            text_result = Inr (JSON_stringify (JObject [(''success'', JBool True)]))\<rparr>,
       st\<lparr>proxyTarget := url\<rparr>)"
    using h u assms(1) dev_server_update [of JSON_parse JSON_stringify url upstream other st]
    by simp
  have prb: "?fetch models_request (st\<lparr>proxyTarget := url\<rparr>) =
      (fst (?fetch models_request (st\<lparr>proxyTarget := url\<rparr>)),
       proxyReq_handler (st\<lparr>proxyTarget := url\<rparr>))"
    by (simp add: dev_server_models)
  have "\<exists>e. handleApiSubmit URL_valid JSON_parse ?fetch (a, st) =
           (a\<lparr>app_error := ''Unable to connect to API: '' @ error_message e\<rparr>,
            proxyReq_handler (st\<lparr>proxyTarget := url\<rparr>))"
    using failed_probe_submit [OF _ upd prb, of URL_valid JSON_parse] assms h by simp
  moreover have "proxyTarget (proxyReq_handler (st\<lparr>proxyTarget := url\<rparr>)) = url"
    by (simp add: proxyReq_handler_def)
  ultimately show "\<exists>e st'. handleApiSubmit URL_valid JSON_parse ?fetch (a, st) =
                   (a\<lparr>app_error := ''Unable to connect to API: '' @ error_message e\<rparr>, st')
                 \<and> proxyTarget st' = url"
    by blast
qed

theorem failed_probe_keeps_form_and_saved_key_witness:
  "handleApiSubmit (\<lambda>u. u = ''http://provider.example:9000'') sample_JSON_parse
     (recorded (\<lambda>r. if f_url r = ''/api/models''
                     then Inr \<lparr>status = 502, text_result = Inr ''Bad Gateway''\<rparr>
                     else Inr \<lparr>status = 200, text_result = Inr ''{\"success\":true}''\<rparr>))
     (\<lparr>apiUrl = ''provider.example:9000/'', isConfiguring = True, app_error = [],
       localStorage_apiUrl = Some ''http://saved.example:8000''\<rparr>, [])
   = (\<lparr>apiUrl = ''provider.example:9000/'', isConfiguring = True,
       app_error = ''Unable to connect to API: Could not connect to API'',
       localStorage_apiUrl = Some ''http://saved.example:8000''\<rparr>,
      [update_request ''http://provider.example:9000'', models_request])
   \<and> handleApiSubmit (\<lambda>u. u = ''http://provider.example:9000'') sample_JSON_parse
     (dev_server sample_JSON_parse sample_JSON_stringify
        (\<lambda>out. Inr \<lparr>status = 200, text_result = Inr ''{}''\<rparr>)
        (\<lambda>r. Inr \<lparr>status = 404, text_result = Inr []\<rparr>))
     (\<lparr>apiUrl = ''provider.example:9000/'', isConfiguring = True, app_error = [],
       localStorage_apiUrl = Some ''http://saved.example:8000''\<rparr>,
      \<lparr>proxyTarget = ''http://saved.example:8000'',
       options_target = ''http://saved.example:8000''\<rparr>)
   = (\<lparr>apiUrl = ''provider.example:9000/'', isConfiguring = True,
       app_error = ''Unable to connect to API: Invalid API response format'',
       localStorage_apiUrl = Some ''http://saved.example:8000''\<rparr>,
      \<lparr>proxyTarget = ''http://provider.example:9000'',
       options_target = ''http://provider.example:9000''\<rparr>)"
proof -
  let ?a = "\<lparr>apiUrl = ''provider.example:9000/'', isConfiguring = True, app_error = [],
       localStorage_apiUrl = Some ''http://saved.example:8000''\<rparr>"
  have fu: "formattedUrl ''provider.example:9000/'' = ''http://provider.example:9000''"
    by (simp add: formattedUrl_def strip_trailing_slash_def ensure_protocol_def startsWith_def)
  have url: "''http://provider.example:9000'' = formattedUrl (apiUrl ?a)"
    by (simp add: fu)
  have valid: "(\<lambda>u. u = ''http://provider.example:9000'') ''http://provider.example:9000''"
    by simp
  note t = failed_probe_keeps_form_and_saved_key [OF url, of "\<lambda>u. u = ''http://provider.example:9000''", OF valid]
  have eval: "handleApiSubmit (\<lambda>u. u = ''http://provider.example:9000'') sample_JSON_parse
     (recorded (\<lambda>r. if f_url r = ''/api/models''
                     then Inr \<lparr>status = 502, text_result = Inr ''Bad Gateway''\<rparr>
                     else Inr \<lparr>status = 200, text_result = Inr ''{\"success\":true}''\<rparr>))
     (?a, [])
   = (?a\<lparr>app_error := ''Unable to connect to API: Could not connect to API''\<rparr>,
      [update_request ''http://provider.example:9000'', models_request])"
    by (simp add: handleApiSubmit_def fu Let_def recorded_def update_request_def
        models_request_def check_probe_def ok_def)
  have eval2: "handleApiSubmit (\<lambda>u. u = ''http://provider.example:9000'') sample_JSON_parse
     (dev_server sample_JSON_parse sample_JSON_stringify
        (\<lambda>out. Inr \<lparr>status = 200, text_result = Inr ''{}''\<rparr>)
        (\<lambda>r. Inr \<lparr>status = 404, text_result = Inr []\<rparr>))
     (?a, \<lparr>proxyTarget = ''http://saved.example:8000'',
       options_target = ''http://saved.example:8000''\<rparr>)
   = (?a\<lparr>app_error := ''Unable to connect to API: Invalid API response format''\<rparr>,
      \<lparr>proxyTarget = ''http://provider.example:9000'',
       options_target = ''http://provider.example:9000''\<rparr>)"
    by (simp add: handleApiSubmit_def fu Let_def dev_server_def update_request_def
        models_request_def check_probe_def ok_def proxy_update_def proxy_web_def
        proxyReq_handler_def rewrite_def response_json_def sample_JSON_parse_def
        ensure_protocol_def startsWith_def)
  from t eval eval2 show ?thesis by simp
qed

section \<open>Model listing and message sending in the chat panel\<close>

lemma available_models_listed:
  assumes "ok r" and "response_json JSON_parse r = Inr (JObject kvs)"
      and "map_of kvs ''available_models'' = Some (JArray items)"
  shows "available_models JSON_parse r = Inr items"
  using assms by (simp add: available_models_def)

lemma available_models_invalid:
  assumes "ok r" and "response_json JSON_parse r = Inr data"
      and "\<forall>items. get_property ''available_models'' data \<noteq> Inr (Some (JArray items))"
  shows "available_models JSON_parse r = Inl (Error ''Invalid response format from server'')"
proof (cases data)
  case (JObject kvs)
  with assms have "\<not> isArray (map_of kvs ''available_models'')"
    by (auto elim: isArray.elims)
  with assms JObject show ?thesis by (simp add: available_models_def)
qed (use assms in \<open>simp_all add: available_models_def\<close>)

text \<open>
  C7. When the listing response is OK and its body parses: if the body is an object whose
  \<open>available_models\<close> is a non-empty array, the array becomes \<open>models\<close> and its first
  element becomes \<open>selectedModel\<close> (for \<open>["a","b"]\<close>, the selection is \<open>"a"\<close>); if the
  body has no \<open>available_models\<close>, or one that is not an array, the error of the panel is
  set and \<open>models\<close> and \<open>selectedModel\<close> keep their values.
\<close>

theorem listing_selects_first_or_fails:
  assumes "fetch models_request w = (Inr r, w')" and "ok r"
      and "response_json JSON_parse r = Inr data"
  shows "(data = JObject kvs \<and> map_of kvs ''available_models'' = Some (JArray (m # ms)) \<longrightarrow>
            fetchModels JSON_parse fetch (c, w) =
              (c\<lparr>chat_error := None, models := m # ms, selectedModel := m\<rparr>, w'))
       \<and> ((\<forall>items. get_property ''available_models'' data \<noteq> Inr (Some (JArray items))) \<longrightarrow>
            fetchModels JSON_parse fetch (c, w) =
              (c\<lparr>chat_error :=
                   Some ''Failed to load models: Invalid response format from server''\<rparr>, w'))"
  using assms available_models_listed [of r JSON_parse kvs "m # ms"]
    available_models_invalid [of r JSON_parse data]
  by (auto simp: fetchModels_def)

theorem listing_selects_first_or_fails_witness:
  "fetchModels sample_JSON_parse
     (recorded (\<lambda>r. Inr \<lparr>status = 200,
                          text_result = Inr ''{\"available_models\":[\"a\",\"b\"]}''\<rparr>))
     (initial_chat, [])
   = (\<lparr>messages = [], input = [], loading = False, models = [JString ''a'', JString ''b''],
       selectedModel = JString ''a'', chat_error = None\<rparr>, [models_request])
   \<and> fetchModels sample_JSON_parse
     (recorded (\<lambda>r. Inr \<lparr>status = 200, text_result = Inr ''{}''\<rparr>)) (initial_chat, [])
   = (\<lparr>messages = [], input = [], loading = False, models = [],
       selectedModel = JString [],
       chat_error = Some ''Failed to load models: Invalid response format from server''\<rparr>,
      [models_request])"
  using
    listing_selects_first_or_fails
      [of "recorded (\<lambda>r. Inr \<lparr>status = 200,
                          text_result = Inr ''{\"available_models\":[\"a\",\"b\"]}''\<rparr>)"
          "[]" "\<lparr>status = 200, text_result = Inr ''{\"available_models\":[\"a\",\"b\"]}''\<rparr>"
          "[models_request]" sample_JSON_parse
          "JObject [(''available_models'', JArray [JString ''a'', JString ''b''])]"
          "[(''available_models'', JArray [JString ''a'', JString ''b''])]"
          "JString ''a''" "[JString ''b'']" initial_chat]
    listing_selects_first_or_fails
      [of "recorded (\<lambda>r. Inr \<lparr>status = 200, text_result = Inr ''{}''\<rparr>)"
          "[]" "\<lparr>status = 200, text_result = Inr ''{}''\<rparr>"
          "[models_request]" sample_JSON_parse "JObject []" _ _ _ initial_chat]
  by (simp add: recorded_def ok_def response_json_def sample_JSON_parse_def initial_chat_def)

text \<open>
  C9. When the listing response is OK and its \<open>available_models\<close> is the empty array, the
  error of the panel stays unset, \<open>models\<close> is empty and \<open>selectedModel\<close> keeps the empty
  string; submitting any input in that state leaves the panel as it is and sends
  nothing.
\<close>

theorem empty_listing_selects_nothing:
  assumes "fetch models_request w = (Inr r, w')" and "ok r"
      and "response_json JSON_parse r = Inr (JObject kvs)"
      and "map_of kvs ''available_models'' = Some (JArray [])"
      and "selectedModel c = JString []"
  shows "fetchModels JSON_parse fetch (c, w) = (c\<lparr>chat_error := None, models := []\<rparr>, w')
       \<and> handleSubmit JSON_parse fetch' (c\<lparr>chat_error := None, models := [], input := text\<rparr>, v)
           = (c\<lparr>chat_error := None, models := [], input := text\<rparr>, v)"
  using assms available_models_listed [of r JSON_parse kvs "[]"]
  by (simp add: fetchModels_def handleSubmit_def)

theorem empty_listing_selects_nothing_witness:
  "fetchModels sample_JSON_parse
     (recorded (\<lambda>r. Inr \<lparr>status = 200, text_result = Inr ''{\"available_models\":[]}''\<rparr>))
     (initial_chat, [])
   = (\<lparr>messages = [], input = [], loading = False, models = [],
       selectedModel = JString [], chat_error = None\<rparr>, [models_request])
   \<and> handleSubmit sample_JSON_parse
     (recorded (\<lambda>r. Inr \<lparr>status = 200, text_result = Inr ''{\"response\":\"hi\"}''\<rparr>))
     (\<lparr>messages = [], input = ''hello'', loading = False, models = [],
       selectedModel = JString [], chat_error = None\<rparr>, [models_request])
   = (\<lparr>messages = [], input = ''hello'', loading = False, models = [],
       selectedModel = JString [], chat_error = None\<rparr>, [models_request])"
  using
    empty_listing_selects_nothing
      [of "recorded (\<lambda>r. Inr \<lparr>status = 200,
                                  text_result = Inr ''{\"available_models\":[]}''\<rparr>)"
          "[]" "\<lparr>status = 200, text_result = Inr ''{\"available_models\":[]}''\<rparr>"
          "[models_request]" sample_JSON_parse "[(''available_models'', JArray [])]"
          initial_chat
          "recorded (\<lambda>r. Inr \<lparr>status = 200, text_result = Inr ''{\"response\":\"hi\"}''\<rparr>)"
          "''hello''" "[models_request]"]
  by (simp add: recorded_def ok_def response_json_def sample_JSON_parse_def initial_chat_def)

text \<open>
  C6. When the input is not blank and a model is selected, and the chat request rejects
  or comes back with a status that is not OK, the transcript after \<open>handleSubmit\<close> is the
  transcript before, then the user's entry with the input as typed, then one assistant
  entry with the fixed text ``Sorry, there was an error processing your request.''.
\<close>

theorem failed_send_appends_fallback:
  assumes "trim (input c) \<noteq> []" and "\<not> falsy (Some (selectedModel c))"
      and "userMessage = \<lparr>role = ''user'', content = Some (JString (input c))\<rparr>"
      and "fetch (chat_request (messages c @ [userMessage]) (selectedModel c)) w = (result, w')"
      and "case result of Inl error \<Rightarrow> True | Inr r \<Rightarrow> \<not> ok r"
  shows "handleSubmit JSON_parse fetch (c, w) =
           (c\<lparr>messages := messages c @
                 [userMessage,
                  \<lparr>role = ''assistant'',
                   content = Some (JString ''Sorry, there was an error processing your request.'')\<rparr>],
               input := [], loading := False\<rparr>, w')"
  using assms
  by (cases result) (simp_all add: handleSubmit_def chat_data_def fallback_text_def)

theorem failed_send_appends_fallback_witness:
  "handleSubmit sample_JSON_parse (recorded (\<lambda>r. Inl (TypeError ''Failed to fetch'')))
     (\<lparr>messages = [\<lparr>role = ''user'', content = Some (JString ''one'')\<rparr>,
                   \<lparr>role = ''assistant'', content = Some (JString ''two'')\<rparr>],
       input = '' three '', loading = False, models = [JString ''a'', JString ''b''],
       selectedModel = JString ''a'', chat_error = None\<rparr>, [])
   = (\<lparr>messages = [\<lparr>role = ''user'', content = Some (JString ''one'')\<rparr>,
                   \<lparr>role = ''assistant'', content = Some (JString ''two'')\<rparr>,
                   \<lparr>role = ''user'', content = Some (JString '' three '')\<rparr>,
                   \<lparr>role = ''assistant'',
                    content = Some (JString ''Sorry, there was an error processing your request.'')\<rparr>],
       input = [], loading = False, models = [JString ''a'', JString ''b''],
       selectedModel = JString ''a'', chat_error = None\<rparr>,
      [chat_request [\<lparr>role = ''user'', content = Some (JString ''one'')\<rparr>,
                     \<lparr>role = ''assistant'', content = Some (JString ''two'')\<rparr>,
                     \<lparr>role = ''user'', content = Some (JString '' three '')\<rparr>]
         (JString ''a'')])
   \<and> messages (fst (handleSubmit sample_JSON_parse
        (recorded (\<lambda>r. Inr \<lparr>status = 500, text_result = Inr ''upstream failed''\<rparr>))
        (\<lparr>messages = [], input = ''three'', loading = False, models = [JString ''a''],
          selectedModel = JString ''a'', chat_error = None\<rparr>, [])))
     = [\<lparr>role = ''user'', content = Some (JString ''three'')\<rparr>,
        \<lparr>role = ''assistant'',
         content = Some (JString ''Sorry, there was an error processing your request.'')\<rparr>]"
proof -
  let ?c = "\<lparr>messages = [\<lparr>role = ''user'', content = Some (JString ''one'')\<rparr>,
                   \<lparr>role = ''assistant'', content = Some (JString ''two'')\<rparr>],
       input = '' three '', loading = False, models = [JString ''a'', JString ''b''],
       selectedModel = JString ''a'', chat_error = None\<rparr>"
  let ?d = "\<lparr>messages = [], input = ''three'', loading = False, models = [JString ''a''],
          selectedModel = JString ''a'', chat_error = None\<rparr>"
  have t1: "trim (input ?c) \<noteq> []" and t2: "trim (input ?d) \<noteq> []"
    by (simp_all add: trim_def isWhiteSpace_def)
  have m1: "\<not> falsy (Some (selectedModel ?c))" and m2: "\<not> falsy (Some (selectedModel ?d))"
    by simp_all
  have f1: "recorded (\<lambda>r. Inl (TypeError ''Failed to fetch''))
      (chat_request (messages ?c @ [\<lparr>role = ''user'', content = Some (JString (input ?c))\<rparr>])
         (selectedModel ?c)) []
    = (Inl (TypeError ''Failed to fetch''),
       [chat_request (messages ?c @ [\<lparr>role = ''user'', content = Some (JString (input ?c))\<rparr>])
         (selectedModel ?c)])"
    by (simp add: recorded_def)
  have f2: "recorded (\<lambda>r. Inr \<lparr>status = 500, text_result = Inr ''upstream failed''\<rparr>)
      (chat_request (messages ?d @ [\<lparr>role = ''user'', content = Some (JString (input ?d))\<rparr>])
         (selectedModel ?d)) []
    = (Inr \<lparr>status = 500, text_result = Inr ''upstream failed''\<rparr>,
       [chat_request (messages ?d @ [\<lparr>role = ''user'', content = Some (JString (input ?d))\<rparr>])
         (selectedModel ?d)])"
    by (simp add: recorded_def)
  have r1: "case Inl (TypeError ''Failed to fetch'') :: js_error + http_response of
              Inl error \<Rightarrow> True | Inr r \<Rightarrow> \<not> ok r"
    by simp
  have r2: "case Inr \<lparr>status = 500, text_result = Inr ''upstream failed''\<rparr>
                 :: js_error + http_response of
              Inl error \<Rightarrow> True | Inr r \<Rightarrow> \<not> ok r"
    by (simp add: ok_def)
  note first = failed_send_appends_fallback
    [where c = ?c and JSON_parse = sample_JSON_parse and w = "[]"
       and fetch = "recorded (\<lambda>r. Inl (TypeError ''Failed to fetch''))"
       and result = "Inl (TypeError ''Failed to fetch'')", OF t1 m1 refl f1 r1]
  note second = failed_send_appends_fallback
    [where c = ?d and JSON_parse = sample_JSON_parse and w = "[]"
       and fetch = "recorded (\<lambda>r. Inr \<lparr>status = 500, text_result = Inr ''upstream failed''\<rparr>)"
       and result = "Inr \<lparr>status = 500, text_result = Inr ''upstream failed''\<rparr>",
     OF t2 m2 refl f2 r2]
  from first second show ?thesis by simp
qed

text \<open>
  C8. When the input is not blank and a model is selected, \<open>handleSubmit\<close> sends exactly
  one request, a POST to \<open>/api/chat\<close>, whose body holds the selected model, temperature
  0.7, \<open>max_tokens\<close> 1000 and a \<open>messages\<close> array with one entry for each of the N prior
  messages followed by one for the new user message: N + 1 entries, in order, and
  reading \<open>role\<close> and \<open>content\<close> from each entry gives those of the message it stands for.
\<close>

theorem chat_request_carries_transcript:
  assumes "trim (input c) \<noteq> []" and "\<not> falsy (Some (selectedModel c))"
      and "transcript = messages c @ [\<lparr>role = ''user'', content = Some (JString (input c))\<rparr>]"
  shows "\<exists>entries.
           snd (handleSubmit JSON_parse (recorded answer) (c, sent)) =
             sent @ [\<lparr>f_url = ''/api/chat'', f_method = ''POST'',
                      f_headers = [(''Content-Type'', ''application/json'')],
                      f_body = Some (JObject
                        [(''messages'', JArray entries),
                         (''model'', selectedModel c),
                         (''temperature'', JNumber (7 / 10)),
                         (''max_tokens'', JNumber 1000)])\<rparr>]
         \<and> length entries = length (messages c) + 1
         \<and> map (get_property ''role'') entries =
             map (\<lambda>m. Inr (Some (JString (role m)))) transcript
         \<and> map (get_property ''content'') entries = map (\<lambda>m. Inr (content m)) transcript"
proof -
  have r: "get_property ''role'' (json_of_message m) = Inr (Some (JString (role m)))" for m
    by (simp add: json_of_message_def)
  have k: "get_property ''content'' (json_of_message m) = Inr (content m)" for m
    by (cases "content m") (simp_all add: json_of_message_def)
  have "snd (handleSubmit JSON_parse (recorded answer) (c, sent)) =
          sent @ [chat_request transcript (selectedModel c)]"
    using assms by (simp add: handleSubmit_def recorded_def Let_def split: sum.splits)
  then show ?thesis
    using assms(3) r k
    by (intro exI [of _ "map json_of_message transcript"]) (simp add: chat_request_def comp_def)
qed

theorem chat_request_carries_transcript_witness:
  "\<exists>entries.
     snd (handleSubmit sample_JSON_parse
            (recorded (\<lambda>r. Inr \<lparr>status = 200, text_result = Inr ''{}''\<rparr>))
            (\<lparr>messages = [\<lparr>role = ''user'', content = Some (JString ''one'')\<rparr>,
                          \<lparr>role = ''assistant'', content = None\<rparr>],
              input = ''three'', loading = False, models = [JString ''a'', JString ''b''],
              selectedModel = JString ''b'', chat_error = None\<rparr>, []))
       = [\<lparr>f_url = ''/api/chat'', f_method = ''POST'',
           f_headers = [(''Content-Type'', ''application/json'')],
           f_body = Some (JObject
             [(''messages'', JArray entries),
              (''model'', JString ''b''),
              (''temperature'', JNumber (7 / 10)),
              (''max_tokens'', JNumber 1000)])\<rparr>]
   \<and> length entries = 3
   \<and> map (get_property ''role'') entries =
       [Inr (Some (JString ''user'')), Inr (Some (JString ''assistant'')),
        Inr (Some (JString ''user''))]
   \<and> map (get_property ''content'') entries =
       [Inr (Some (JString ''one'')), Inr None, Inr (Some (JString ''three''))]"
proof -
  let ?c = "\<lparr>messages = [\<lparr>role = ''user'', content = Some (JString ''one'')\<rparr>,
                          \<lparr>role = ''assistant'', content = None\<rparr>],
              input = ''three'', loading = False, models = [JString ''a'', JString ''b''],
              selectedModel = JString ''b'', chat_error = None\<rparr>"
  have t: "trim (input ?c) \<noteq> []"
    by (simp add: trim_def isWhiteSpace_def)
  have m: "\<not> falsy (Some (selectedModel ?c))"
    by simp
  from chat_request_carries_transcript
    [where c = ?c and JSON_parse = sample_JSON_parse and sent = "[]"
       and answer = "\<lambda>r. Inr \<lparr>status = 200, text_result = Inr ''{}''\<rparr>", OF t m refl]
  show ?thesis by (simp add: numeral_3_eq_3)
qed

end
